theory Spec2Isabelle
  imports Complex_Main
begin

section \<open>JavaScript numbers\<close>

text \<open>
  The simulation computes with JavaScript numbers.  They are modelled as exact reals
  extended with the three special values that arithmetic can produce: \<open>NaN\<close> and the two
  infinities.  Rounding, overflow and the sign of zero are outside the model; a zero
  divisor is taken as \<open>+0\<close>, which is what \<open>Math.sqrt\<close> of a sum of squares yields.
  HOL's own \<open>0 / 0 = 0\<close> and \<open>sqrt\<close> of a negative number are never used for a
  JavaScript value: the operations below write these cases out.
\<close>

datatype jsnum = Num real | PosInf | NegInf | NaN

fun js_neg :: "jsnum \<Rightarrow> jsnum" where
  "js_neg (Num a) = Num (- a)"
| "js_neg PosInf = NegInf"
| "js_neg NegInf = PosInf"
| "js_neg NaN = NaN"

fun js_add :: "jsnum \<Rightarrow> jsnum \<Rightarrow> jsnum" where
  "js_add (Num a) (Num b) = Num (a + b)"
| "js_add NaN _ = NaN"
| "js_add _ NaN = NaN"
| "js_add PosInf NegInf = NaN"
| "js_add NegInf PosInf = NaN"
| "js_add PosInf _ = PosInf"
| "js_add _ PosInf = PosInf"
| "js_add NegInf _ = NegInf"
| "js_add _ NegInf = NegInf"

definition js_sub :: "jsnum \<Rightarrow> jsnum \<Rightarrow> jsnum" where
  "js_sub a b = js_add a (js_neg b)"

fun js_mul :: "jsnum \<Rightarrow> jsnum \<Rightarrow> jsnum" where
  "js_mul (Num a) (Num b) = Num (a * b)"
| "js_mul NaN _ = NaN"
| "js_mul _ NaN = NaN"
| "js_mul (Num a) PosInf = (if a = 0 then NaN else if 0 < a then PosInf else NegInf)"
| "js_mul (Num a) NegInf = (if a = 0 then NaN else if 0 < a then NegInf else PosInf)"
| "js_mul PosInf (Num b) = (if b = 0 then NaN else if 0 < b then PosInf else NegInf)"
| "js_mul NegInf (Num b) = (if b = 0 then NaN else if 0 < b then NegInf else PosInf)"
| "js_mul PosInf PosInf = PosInf"
| "js_mul PosInf NegInf = NegInf"
| "js_mul NegInf PosInf = NegInf"
| "js_mul NegInf NegInf = PosInf"

fun js_div :: "jsnum \<Rightarrow> jsnum \<Rightarrow> jsnum" where
  "js_div (Num a) (Num b) =
     (if b \<noteq> 0 then Num (a / b)
      else if a = 0 then NaN
      else if 0 < a then PosInf else NegInf)"
| "js_div NaN _ = NaN"
| "js_div _ NaN = NaN"
| "js_div (Num a) _ = Num 0"
| "js_div PosInf (Num b) = (if 0 \<le> b then PosInf else NegInf)"
| "js_div NegInf (Num b) = (if 0 \<le> b then NegInf else PosInf)"
| "js_div _ _ = NaN"

fun js_sqrt :: "jsnum \<Rightarrow> jsnum" where
  "js_sqrt (Num a) = (if a < 0 then NaN else Num (sqrt a))"
| "js_sqrt PosInf = PosInf"
| "js_sqrt _ = NaN"

fun js_floor :: "jsnum \<Rightarrow> jsnum" where
  "js_floor (Num a) = Num (of_int \<lfloor>a\<rfloor>)"
| "js_floor v = v"

fun js_lt :: "jsnum \<Rightarrow> jsnum \<Rightarrow> bool" where
  "js_lt (Num a) (Num b) = (a < b)"
| "js_lt NaN _ = False"
| "js_lt _ NaN = False"
| "js_lt _ NegInf = False"
| "js_lt PosInf _ = False"
| "js_lt _ _ = True"

fun js_le :: "jsnum \<Rightarrow> jsnum \<Rightarrow> bool" where
  "js_le (Num a) (Num b) = (a \<le> b)"
| "js_le NaN _ = False"
| "js_le _ NaN = False"
| "js_le NegInf _ = True"
| "js_le _ PosInf = True"
| "js_le _ _ = False"

section \<open>Constants and data model\<close>

text \<open>From \<open>constants.ts\<close>: the playable width and the number of terrain segments.\<close>

definition TERRAIN_WIDTH :: real where
  "TERRAIN_WIDTH = 200"

definition TERRAIN_SEGMENTS :: int where
  "TERRAIN_SEGMENTS = 200"

text \<open>From \<open>types.ts\<close>.  The nested \<open>position\<close> object is flattened into three fields.\<close>

datatype GameState =
  WAITING_FOR_INPUT | CHARGING | FIRING | PROJECTILE_FLYING | EXPLOSION | GAME_OVER

record worm =
  wid :: nat
  teamId :: nat
  name :: string
  hp :: jsnum
  pos_x :: jsnum
  pos_y :: jsnum
  pos_z :: jsnum
  rotation :: real
  aimAngle :: real
  isDead :: bool

text \<open>
  The part of the component state and of the mutable \<open>gameData\<close> reference that the
  simulation functions read and write.  \<open>threeReady\<close> says that \<open>threeRefs.current\<close> is
  set.  \<open>terrainHeights\<close> is the \<open>Float32Array\<close> of \<open>TERRAIN_SEGMENTS + 1\<close> samples;
  its entries are taken as exact reals.
\<close>

record game =
  gameState :: GameState
  currentWormIndex :: nat
  wind :: real
  timeLeft :: nat
  worms :: "worm list"
  terrainHeights :: "real list"
  projectileActive :: bool
  threeReady :: bool

datatype js_error = TypeError

section \<open>Terrain\<close>



text \<open>The world x of sample \<open>i\<close>, as the body of the loop in \<open>deformTerrain\<close> computes it.\<close>

definition worldX :: "int \<Rightarrow> real" where
  "worldX i = (of_int i / of_int TERRAIN_SEGMENTS) * TERRAIN_WIDTH - TERRAIN_WIDTH / 2"

text \<open>
  One pass through the body of the loop of \<open>deformTerrain\<close>, at index \<open>i\<close>.  When the
  index is in range but the array is shorter, the read is \<open>undefined\<close> and the write is
  ignored, so the heights stay as they are.
\<close>

definition deformAt :: "real \<Rightarrow> real \<Rightarrow> int \<Rightarrow> real list \<Rightarrow> real list" where
  "deformAt x radius i hs =
     (if 0 \<le> i \<and> i \<le> TERRAIN_SEGMENTS then
        (let dist = \<bar>worldX i - x\<bar> in
         if dist < radius then
           (let depth = sqrt (radius * radius - dist * dist);
                currentY = hs ! nat i;
                newY = currentY - depth
            in hs[nat i := newY])
         else hs)
      else hs)"

text \<open>The \<open>for\<close> loop of \<open>deformTerrain\<close>, from index \<open>i\<close> up to and including \<open>hi\<close>.\<close>

function deformLoop :: "real \<Rightarrow> real \<Rightarrow> int \<Rightarrow> int \<Rightarrow> real list \<Rightarrow> real list" where
  "deformLoop x radius i hi hs =
     (if i \<le> hi then deformLoop x radius (i + 1) hi (deformAt x radius i hs) else hs)"
  by pat_completeness auto
termination
  by (relation "measure (\<lambda>(x, radius, i, hi, hs). nat (hi + 1 - i))") auto

declare deformLoop.simps [simp del]

text \<open>
  \<open>deformTerrain\<close> on the logical height map; the first argument is \<open>threeReady\<close>
  (the function returns at once while the scene is not set up).  The mesh update is
  outside the model.
\<close>

definition deformTerrain :: "bool \<Rightarrow> real \<Rightarrow> real \<Rightarrow> real list \<Rightarrow> real list" where
  "deformTerrain ready x radius hs =
     (if \<not> ready then hs
      else
        (let centerIndex = \<lfloor>((x + TERRAIN_WIDTH / 2) / TERRAIN_WIDTH) * of_int TERRAIN_SEGMENTS\<rfloor>;
             radiusIndices = \<lfloor>(radius / TERRAIN_WIDTH) * of_int TERRAIN_SEGMENTS * 2\<rfloor>
         in deformLoop x radius (centerIndex - radiusIndices) (centerIndex + radiusIndices) hs))"

text \<open>A sequence of \<open>deformTerrain\<close> calls, each with its own centre and radius.\<close>

definition deformAll :: "bool \<Rightarrow> (real \<times> real) list \<Rightarrow> real list \<Rightarrow> real list" where
  "deformAll ready calls hs = fold (\<lambda>(x, radius). deformTerrain ready x radius) calls hs"

section \<open>Explosions\<close>

definition explosionRadius :: real where
  "explosionRadius = 8"

definition maxDamage :: real where
  "maxDamage = 40"

text \<open>
  The function mapped over the roster by \<open>handleExplosion\<close>, for an impact at the
  finite point \<open>(x, y)\<close>.  Every worm of the roster goes through it, dead or alive.
\<close>

definition explodeWorm :: "real \<Rightarrow> real \<Rightarrow> worm \<Rightarrow> worm" where
  "explodeWorm x y w =
     (let dx = js_sub (pos_x w) (Num x);
          dy = js_sub (pos_y w) (Num y);
          dist = js_sqrt (js_add (js_mul dx dx) (js_mul dy dy));
          w1 = (if js_lt dist (Num explosionRadius) then
                  (let dmg = js_floor (js_mul (Num maxDamage)
                               (js_sub (Num 1) (js_div dist (Num explosionRadius))));
                       knockbackForce = js_mul (js_sub (Num explosionRadius) dist) (Num 0.5)
                   in w\<lparr>hp := js_sub (hp w) dmg,
                        pos_x := js_add (pos_x w) (js_mul (js_div dx dist) knockbackForce)\<rparr>)
                else w)
      in if js_le (hp w1) (Num 0) then w1\<lparr>isDead := True\<rparr> else w1)"

definition handleExplosion :: "real \<Rightarrow> real \<Rightarrow> game \<Rightarrow> game" where
  "handleExplosion x y g =
     g\<lparr>projectileActive := False,
       gameState := EXPLOSION,
       terrainHeights := deformTerrain (threeReady g) x 6 (terrainHeights g),
       worms := map (explodeWorm x y) (worms g)\<rparr>"

text \<open>
  What a sequence of impacts does to one worm of the roster: \<open>handleExplosion\<close> maps
  \<open>explodeWorm\<close> over the roster at every impact.
\<close>

definition explodeAll :: "(real \<times> real) list \<Rightarrow> worm \<Rightarrow> worm" where
  "explodeAll impacts w = fold (\<lambda>(x, y). explodeWorm x y) impacts w"



section \<open>Movement\<close>

text \<open>The five keys the game loop reads.\<close>

record keys =
  ArrowLeft :: bool
  ArrowRight :: bool
  ArrowUp :: bool
  ArrowDown :: bool
  Space :: bool

definition moveSpeed :: real where
  "moveSpeed = 0.1"

text \<open>
  The horizontal movement of the active worm in \<open>animate\<close>: the \<open>ArrowLeft\<close> block, then
  the \<open>ArrowRight\<close> block, each with its clamp to the map.
\<close>

definition moveWorm :: "keys \<Rightarrow> worm \<Rightarrow> worm" where
  "moveWorm ks w =
     (let w1 = (if ArrowLeft ks then
                  (let a = w\<lparr>pos_x := js_sub (pos_x w) (Num moveSpeed), rotation := pi\<rparr>
                   in if js_lt (pos_x a) (Num (- TERRAIN_WIDTH / 2))
                      then a\<lparr>pos_x := Num (- TERRAIN_WIDTH / 2)\<rparr> else a)
                else w);
          w2 = (if ArrowRight ks then
                  (let b = w1\<lparr>pos_x := js_add (pos_x w1) (Num moveSpeed), rotation := 0\<rparr>
                   in if js_lt (Num (TERRAIN_WIDTH / 2)) (pos_x b)
                      then b\<lparr>pos_x := Num (TERRAIN_WIDTH / 2)\<rparr> else b)
                else w1)
      in w2)"

section \<open>Turn order\<close>

text \<open>
  Reading \<open>gd.worms[i].isDead\<close>: outside the array the element is \<open>undefined\<close> and the
  property access throws.
\<close>

definition wormIsDead :: "worm list \<Rightarrow> nat \<Rightarrow> js_error + bool" where
  "wormIsDead ws i = (if i < length ws then Inr (isDead (ws ! i)) else Inl TypeError)"

text \<open>The \<open>while\<close> loop of \<open>nextTurn\<close>; it returns \<open>(nextIndex, attempts)\<close>.\<close>

function skipDead :: "worm list \<Rightarrow> nat \<Rightarrow> nat \<Rightarrow> js_error + (nat \<times> nat)" where
  "skipDead ws nextIndex attempts =
     (case wormIsDead ws nextIndex of
        Inl e \<Rightarrow> Inl e
      | Inr dead \<Rightarrow>
          if dead \<and> attempts < length ws
          then skipDead ws ((nextIndex + 1) mod length ws) (attempts + 1)
          else Inr (nextIndex, attempts))"
  by pat_completeness auto
termination
  by (relation "measure (\<lambda>(ws, nextIndex, attempts). length ws - attempts)") auto

declare skipDead.simps [simp del]

datatype advance_result = GameOver | NextIndex nat

text \<open>
  The decision of \<open>nextTurn\<close>: the index computation, the loop and the test on
  \<open>attempts\<close>.  On an empty roster \<open>(i + 1) % 0\<close> is \<open>NaN\<close>, the element read is
  \<open>undefined\<close> and the loop condition throws.
\<close>

definition advance :: "worm list \<Rightarrow> nat \<Rightarrow> js_error + advance_result" where
  "advance ws current =
     (if length ws = 0 then Inl TypeError
      else
        (case skipDead ws ((current + 1) mod length ws) 0 of
           Inl e \<Rightarrow> Inl e
         | Inr (nextIndex, attempts) \<Rightarrow>
             if attempts \<ge> length ws then Inr GameOver else Inr (NextIndex nextIndex)))"

text \<open>
  \<open>nextTurn\<close> on the game state; \<open>r\<close> is the value \<open>Math.random()\<close> returns for the
  new wind.
\<close>

definition nextTurn :: "real \<Rightarrow> game \<Rightarrow> js_error + game" where
  "nextTurn r g =
     (case advance (worms g) (currentWormIndex g) of
        Inl e \<Rightarrow> Inl e
      | Inr GameOver \<Rightarrow> Inr (g\<lparr>gameState := GAME_OVER\<rparr>)
      | Inr (NextIndex nextIndex) \<Rightarrow>
          Inr (g\<lparr>currentWormIndex := nextIndex, wind := (r * 2 - 1) * 0.5, timeLeft := 30\<rparr>))"

section \<open>The initial roster\<close>

text \<open>The four worms the component starts with.\<close>

definition initialWorms :: "worm list" where
  "initialWorms =
     [\<lparr>wid = 1, teamId = 1, name = ''Hans'', hp = Num 100, pos_x = Num (- 40), pos_y = Num 0,
        pos_z = Num 0, rotation = 0, aimAngle = 0.5, isDead = False\<rparr>,
      \<lparr>wid = 2, teamId = 2, name = ''Fritz'', hp = Num 100, pos_x = Num 40, pos_y = Num 0,
        pos_z = Num 0, rotation = pi, aimAngle = 0.5, isDead = False\<rparr>,
      \<lparr>wid = 3, teamId = 1, name = ''Greta'', hp = Num 100, pos_x = Num (- 20), pos_y = Num 0,
        pos_z = Num 0, rotation = 0, aimAngle = 0.8, isDead = False\<rparr>,
      \<lparr>wid = 4, teamId = 2, name = ''Otto'', hp = Num 100, pos_x = Num 20, pos_y = Num 0,
        pos_z = Num 0, rotation = pi, aimAngle = 0.8, isDead = False\<rparr>]"

text \<open>The roster once both worms of team 1 are at 0 HP and marked dead.\<close>

definition teamOneEliminated :: "worm list" where
  "teamOneEliminated =
     map (\<lambda>w. if teamId w = 1 then w\<lparr>hp := Num 0, isDead := True\<rparr> else w) initialWorms"

section \<open>The overlay\<close>

text \<open>
  \<open>UIOverlay\<close> sums the health of the live worms of each team and, once the state is
  \<open>GAME_OVER\<close>, names the winner by comparing the two sums.
\<close>

definition teamHp :: "nat \<Rightarrow> worm list \<Rightarrow> jsnum" where
  "teamHp t ws = foldl (\<lambda>acc w. js_add acc (hp w)) (Num 0) (filter (\<lambda>w. teamId w = t \<and> \<not> isDead w) ws)"

definition gameOverText :: "worm list \<Rightarrow> string" where
  "gameOverText ws =
     (if js_lt (teamHp 2 ws) (teamHp 1 ws) then ''TEAM RED WINS!''
      else if js_lt (teamHp 1 ws) (teamHp 2 ws) then ''TEAM BLUE WINS!''
      else ''DRAW!'')"

section \<open>Turn order: the skip loop\<close>

lemma skipDead_in_range:
  "i < length ws \<Longrightarrow> \<exists>j b. skipDead ws i a = Inr (j, b) \<and> j < length ws \<and> a \<le> b
     \<and> (b < length ws \<longrightarrow> \<not> isDead (ws ! j))"
proof (induction ws i a rule: skipDead.induct)
  case (1 ws nextIndex attempts)
  show ?case
  proof (cases "isDead (ws ! nextIndex) \<and> attempts < length ws")
    case True
    have "(nextIndex + 1) mod length ws < length ws"
      using "1.prems"(1) by (intro mod_less_divisor) auto
    from "1.IH"[OF _ _ this, of "isDead (ws ! nextIndex)"] True "1.prems"
    obtain j b where "skipDead ws ((nextIndex + 1) mod length ws) (attempts + 1) = Inr (j, b)"
      "j < length ws" "attempts + 1 \<le> b" "b < length ws \<longrightarrow> \<not> isDead (ws ! j)"
      by (auto simp: wormIsDead_def)
    then show ?thesis
      using True "1.prems" by (subst skipDead.simps) (auto simp: wormIsDead_def)
  next
    case False
    then show ?thesis
      using "1.prems" by (subst skipDead.simps) (auto simp: wormIsDead_def)
  qed
qed


lemma skipDead_finds_live:
  "i < length ws \<Longrightarrow> a + k < length ws \<Longrightarrow> \<not> isDead (ws ! ((i + k) mod length ws)) \<Longrightarrow>
     \<exists>j b. skipDead ws i a = Inr (j, b) \<and> b < length ws"
proof (induction ws i a arbitrary: k rule: skipDead.induct)
  case (1 ws nextIndex attempts)
  show ?case
  proof (cases "isDead (ws ! nextIndex) \<and> attempts < length ws")
    case True
    with "1.prems" have "k \<noteq> 0" by (cases k) auto
    then obtain k' where k: "k = Suc k'" by (cases k) auto
    have lt: "(nextIndex + 1) mod length ws < length ws"
      using "1.prems"(1) by (intro mod_less_divisor) auto
    have eq: "((nextIndex + 1) mod length ws + k') mod length ws = (nextIndex + k) mod length ws"
      by (simp add: k mod_add_left_eq)
    have "\<exists>j b. skipDead ws ((nextIndex + 1) mod length ws) (attempts + 1) = Inr (j, b) \<and> b < length ws"
      using "1.IH"[OF _ _ lt, of "isDead (ws ! nextIndex)" k'] True "1.prems" k eq
      by (auto simp: wormIsDead_def)
    then show ?thesis
      using True "1.prems" by (subst skipDead.simps) (auto simp: wormIsDead_def)
  next
    case False
    then show ?thesis
      using "1.prems" by (subst skipDead.simps) (auto simp: wormIsDead_def)
  qed
qed

lemma wrap_reaches:
  fixes i l n :: nat
  assumes "i < n" "l < n"
  shows "(i + (l + n - i) mod n) mod n = l"
proof -
  have "(i + (l + n - i) mod n) mod n = (i + (l + n - i)) mod n"
    by (simp add: mod_add_right_eq)
  also have "\<dots> = (l + n) mod n" using assms by simp
  also have "\<dots> = l" using assms by simp
  finally show ?thesis .
qed

lemma advance_some_live:
  assumes "ws \<noteq> []" "\<exists>w \<in> set ws. \<not> isDead w"
  shows "\<exists>j < length ws. advance ws current = Inr (NextIndex j) \<and> \<not> isDead (ws ! j)"
proof -
  let ?n = "length ws"
  let ?i = "(current + 1) mod ?n"
  from assms(1) have n: "0 < ?n" by simp
  then have i: "?i < ?n" by simp
  from skipDead_in_range[OF i, of 0] obtain j b where
    run: "skipDead ws ?i 0 = Inr (j, b)" and j: "j < ?n" and
    live: "b < ?n \<longrightarrow> \<not> isDead (ws ! j)"
    by blast
  from assms(2) obtain l where l: "l < ?n" "\<not> isDead (ws ! l)"
    by (auto simp: in_set_conv_nth)
  let ?k = "(l + ?n - ?i) mod ?n"
  have "0 + ?k < ?n" using n by simp
  moreover have "\<not> isDead (ws ! ((?i + ?k) mod ?n))"
    using wrap_reaches[OF i l(1)] l(2) by simp
  ultimately obtain j' b' where "skipDead ws ?i 0 = Inr (j', b')" "b' < ?n"
    using skipDead_finds_live[OF i] by blast
  with run have "b < ?n" by simp
  with n run j live show ?thesis by (auto simp: advance_def)
qed





text \<open>
  Claim C8 at the roster with team 1 eliminated and both worms of team 2 alive: the
  turn passes from one worm of team 2 to the other, and \<open>nextTurn\<close> leaves the game
  state as it was instead of setting \<open>GAME_OVER\<close>.
\<close>

theorem team_one_eliminated_turn_goes_on:
  "advance teamOneEliminated 1 = Inr (NextIndex 3)
   \<and> advance teamOneEliminated 3 = Inr (NextIndex 1)
   \<and> nextTurn (1 / 2)
        \<lparr>gameState = WAITING_FOR_INPUT, currentWormIndex = 1, wind = 0, timeLeft = 30,
          worms = teamOneEliminated, terrainHeights = replicate 201 0,
          projectileActive = False, threeReady = True\<rparr>
      = Inr \<lparr>gameState = WAITING_FOR_INPUT, currentWormIndex = 3, wind = 0, timeLeft = 30,
          worms = teamOneEliminated, terrainHeights = replicate 201 0,
          projectileActive = False, threeReady = True\<rparr>"
proof -
  have a: "advance teamOneEliminated 1 = Inr (NextIndex 3)"
    by (simp add: advance_def skipDead.simps wormIsDead_def teamOneEliminated_def initialWorms_def)
  have b: "advance teamOneEliminated 3 = Inr (NextIndex 1)"
    by (simp add: advance_def skipDead.simps wormIsDead_def teamOneEliminated_def initialWorms_def)
  from a have a': "advance teamOneEliminated (Suc 0) = Inr (NextIndex 3)" by simp
  show ?thesis
    unfolding nextTurn_def by (simp add: a' b)
qed

text \<open>
  The overlay expects more: it names a winning team at \<open>GAME_OVER\<close> by the health of the
  live worms.  When \<open>advance\<close> reports \<open>GameOver\<close> no worm is alive, both sums are 0 and the
  text is always the draw.
\<close>

lemma teamHp_all_dead:
  assumes "\<forall>w \<in> set ws. isDead w"
  shows "teamHp t ws = Num 0"
proof -
  have "filter (\<lambda>w. teamId w = t \<and> \<not> isDead w) ws = []"
    using assms by (simp add: filter_empty_conv)
  then show ?thesis by (simp add: teamHp_def)
qed

lemma game_over_is_always_draw:
  assumes "advance ws current = Inr GameOver"
  shows "gameOverText ws = ''DRAW!''"
proof -
  from assms have ne: "ws \<noteq> []" by (auto simp: advance_def)
  have "\<forall>w \<in> set ws. isDead w"
  proof (rule ccontr)
    assume "\<not> (\<forall>w \<in> set ws. isDead w)"
    then have "\<exists>w \<in> set ws. \<not> isDead w" by simp
    from advance_some_live[OF ne this, of current] assms show False by auto
  qed
  then have "teamHp 1 ws = Num 0" "teamHp 2 ws = Num 0"
    by (simp_all add: teamHp_all_dead)
  then show ?thesis by (simp add: gameOverText_def)
qed

section \<open>Terrain: lookup and deformation\<close>





lemma length_deformAt [simp]: "length (deformAt x radius i hs) = length hs"
  by (simp add: deformAt_def Let_def)

lemma deformAt_nth:
  assumes "k < length hs"
  shows "deformAt x radius i hs ! k =
     (if i = int k \<and> int k \<le> TERRAIN_SEGMENTS \<and> \<bar>worldX (int k) - x\<bar> < radius
      then hs ! k - sqrt (radius * radius - \<bar>worldX (int k) - x\<bar> * \<bar>worldX (int k) - x\<bar>)
      else hs ! k)"
proof (cases "i = int k")
  case True
  then show ?thesis using assms by (simp add: deformAt_def Let_def)
next
  case False
  then have "0 \<le> i \<Longrightarrow> nat i \<noteq> k" by linarith
  with False show ?thesis by (simp add: deformAt_def Let_def)
qed

lemma length_deformLoop [simp]: "length (deformLoop x radius i hi hs) = length hs"
proof (induction x radius i hi hs rule: deformLoop.induct)
  case (1 x radius i hi hs)
  then show ?case by (subst deformLoop.simps) simp
qed

lemma deformLoop_nth:
  "k < length hs \<Longrightarrow> deformLoop x radius i hi hs ! k =
     (if i \<le> int k \<and> int k \<le> hi \<and> int k \<le> TERRAIN_SEGMENTS \<and> \<bar>worldX (int k) - x\<bar> < radius
      then hs ! k - sqrt (radius * radius - \<bar>worldX (int k) - x\<bar> * \<bar>worldX (int k) - x\<bar>)
      else hs ! k)"
proof (induction x radius i hi hs rule: deformLoop.induct)
  case (1 x radius i hi hs)
  show ?case
  proof (cases "i \<le> hi")
    case True
    have step: "deformLoop x radius i hi hs = deformLoop x radius (i + 1) hi (deformAt x radius i hs)"
      using True by (subst deformLoop.simps) simp
    show ?thesis
      unfolding step using "1.IH"[OF True] "1.prems" True
      by (auto simp: deformAt_nth)
  next
    case False
    then show ?thesis by (subst deformLoop.simps) auto
  qed
qed

lemma depth_nonneg:
  fixes radius d :: real
  assumes "\<bar>d\<bar> < radius"
  shows "0 \<le> sqrt (radius * radius - \<bar>d\<bar> * \<bar>d\<bar>)"
proof -
  have "\<bar>d\<bar> * \<bar>d\<bar> \<le> radius * radius"
    using assms by (intro mult_mono) auto
  then show ?thesis by simp
qed

lemma deformTerrain_length [simp]: "length (deformTerrain ready x radius hs) = length hs"
  by (simp add: deformTerrain_def Let_def)

lemma deformLoop_le:
  "k < length hs \<Longrightarrow> deformLoop x radius i hi hs ! k \<le> hs ! k"
  using depth_nonneg[of "worldX (int k) - x" radius] by (simp add: deformLoop_nth)

lemma deformTerrain_le:
  "k < length hs \<Longrightarrow> deformTerrain ready x radius hs ! k \<le> hs ! k"
  by (simp add: deformTerrain_def Let_def deformLoop_le)

lemma deformAll_append:
  "deformAll ready (cs @ cs') hs = deformAll ready cs' (deformAll ready cs hs)"
  by (simp add: deformAll_def)

lemma length_deformAll [simp]: "length (deformAll ready cs hs) = length hs"
  by (induction cs arbitrary: hs) (auto simp: deformAll_def)

lemma deformAll_le:
  "k < length hs \<Longrightarrow> deformAll ready cs hs ! k \<le> hs ! k"
proof (induction cs arbitrary: hs)
  case Nil
  then show ?case by (simp add: deformAll_def)
next
  case (Cons c cs)
  obtain x radius where c: "c = (x, radius)" by (cases c)
  have "deformAll ready (c # cs) hs = deformAll ready cs (deformTerrain ready x radius hs)"
    by (simp add: deformAll_def c)
  moreover have "deformAll ready cs (deformTerrain ready x radius hs) ! k
      \<le> deformTerrain ready x radius hs ! k"
    using Cons.prems by (intro Cons.IH) simp
  moreover have "deformTerrain ready x radius hs ! k \<le> hs ! k"
    using Cons.prems by (rule deformTerrain_le)
  ultimately show ?case by simp
qed

text \<open>
  Claim C5.  Across any sequence of \<open>deformTerrain\<close> calls, with arbitrary centres and
  radii, the number of height samples stays the same and no sample ever rises: after
  further calls \<open>cs'\<close> every sample is at most what it was after the calls \<open>cs\<close>.
\<close>

theorem terrain_heights_never_increase:
  "length (deformAll ready (cs @ cs') hs) = length hs
   \<and> (\<forall>k < length hs. deformAll ready (cs @ cs') hs ! k \<le> deformAll ready cs hs ! k)"
  by (simp add: deformAll_append deformAll_le)

theorem terrain_heights_never_increase_witness:
  "(100::nat) < length (replicate 201 (0::real))
   \<and> deformAll True ([] @ [(0, 6)]) (replicate 201 0) ! 100 \<le> deformAll True [] (replicate 201 0) ! 100"
  using terrain_heights_never_increase [of True "[]" "[(0, 6)]" "replicate 201 0"] by simp

text \<open>The two state transformers leave the terrain as \<open>deformTerrain\<close> made it.\<close>

lemma handleExplosion_terrain:
  "length (terrainHeights (handleExplosion x y g)) = length (terrainHeights g)"
  "k < length (terrainHeights g) \<Longrightarrow>
     terrainHeights (handleExplosion x y g) ! k \<le> terrainHeights g ! k"
  by (simp_all add: handleExplosion_def deformTerrain_le)

lemma nextTurn_terrain:
  "nextTurn r g = Inr g' \<Longrightarrow> terrainHeights g' = terrainHeights g"
  by (auto simp: nextTurn_def split: sum.splits advance_result.splits)









section \<open>Explosions: damage and knockback\<close>

lemma js_sub_Num [simp]: "js_sub (Num a) (Num b) = Num (a - b)"
  by (simp add: js_sub_def)

lemma js_sqrt_lt_NumD:
  assumes "js_lt (js_sqrt v) (Num r)"
  obtains d where "js_sqrt v = Num d" "0 \<le> d" "d < r"
  using assms by (cases v) (auto split: if_splits)



lemma handleExplosion_worm:
  "i < length (worms g) \<Longrightarrow> worms (handleExplosion x y g) ! i = explodeWorm x y (worms g ! i)"
  by (simp add: handleExplosion_def)


lemma damage_floor_nonneg:
  fixes d :: real
  assumes "d < 8"
  shows "0 \<le> \<lfloor>40 * (1 - d / 8)\<rfloor>"
  using assms by simp



lemma explodeWorm_hp:
  assumes "hp w = Num h"
  shows "\<exists>h'. hp (explodeWorm x y w) = Num h' \<and> h' \<le> h
           \<and> (h' \<le> 0 \<longrightarrow> isDead (explodeWorm x y w))
           \<and> (isDead w \<longrightarrow> isDead (explodeWorm x y w))"
proof -
  let ?dx = "js_sub (pos_x w) (Num x)" and ?dy = "js_sub (pos_y w) (Num y)"
  let ?dist = "js_sqrt (js_add (js_mul ?dx ?dx) (js_mul ?dy ?dy))"
  show ?thesis
  proof (cases "js_lt ?dist (Num explosionRadius)")
    case True
    then obtain d where d: "?dist = Num d" "0 \<le> d" "d < explosionRadius"
      by (rule js_sqrt_lt_NumD)
    then have "0 \<le> \<lfloor>40 * (1 - d / 8)\<rfloor>"
      by (intro damage_floor_nonneg) (simp add: explosionRadius_def)
    then have "h - of_int \<lfloor>40 * (1 - d / 8)\<rfloor> \<le> h" by simp
    then show ?thesis
      using True d assms
      by (simp add: explodeWorm_def Let_def explosionRadius_def maxDamage_def)
  next
    case False
    then show ?thesis
      using assms by (simp add: explodeWorm_def Let_def)
  qed
qed

lemma explodeAll_snoc:
  "explodeAll (impacts @ [(x, y)]) w = explodeWorm x y (explodeAll impacts w)"
  by (simp add: explodeAll_def)

text \<open>
  Claim C3, as the code has it.  Across any sequence of impacts the stored health of a
  worm stays a finite number and never rises, a worm whose health is at or below 0
  after an impact is marked dead, and a dead worm stays dead.  The stored health is
  not clamped at 0.
\<close>

theorem health_after_impacts:
  assumes "hp w = Num h"
  shows "\<exists>h'. hp (explodeAll impacts w) = Num h' \<and> h' \<le> h
           \<and> (impacts \<noteq> [] \<and> h' \<le> 0 \<longrightarrow> isDead (explodeAll impacts w))
           \<and> (isDead w \<longrightarrow> isDead (explodeAll impacts w))"
proof (induction impacts rule: rev_induct)
  case Nil
  then show ?case using assms by (simp add: explodeAll_def)
next
  case (snoc p impacts)
  obtain x y where p: "p = (x, y)" by (cases p)
  from snoc obtain h1 where h1: "hp (explodeAll impacts w) = Num h1" "h1 \<le> h"
    "isDead w \<longrightarrow> isDead (explodeAll impacts w)"
    by blast
  from explodeWorm_hp[OF h1(1), of x y] obtain h2 where
    h2: "hp (explodeWorm x y (explodeAll impacts w)) = Num h2" "h2 \<le> h1"
      "h2 \<le> 0 \<longrightarrow> isDead (explodeWorm x y (explodeAll impacts w))"
      "isDead (explodeAll impacts w) \<longrightarrow> isDead (explodeWorm x y (explodeAll impacts w))"
    by blast
  show ?case
    unfolding p explodeAll_snoc using h1 h2 by auto
qed

theorem health_after_impacts_witness:
  "hp (initialWorms ! 0) = Num 100
   \<and> js_le (hp (explodeAll [(- 39, 0)] (initialWorms ! 0))) (Num 100)"
proof -
  have w: "hp (initialWorms ! 0) = Num 100" by (simp add: initialWorms_def)
  from health_after_impacts [OF w, of "[(- 39, 0)]"] w show ?thesis by auto
qed

text \<open>
  Claim C3 as stated says the stored health is never negative.  Three impacts, each one
  unit to the right of the first worm of the initial roster, take its health from 100
  to 65, to 30 and to \<open>-5\<close>, which is what is stored.
\<close>

theorem health_goes_negative_counterexample:
  "hp (explodeAll [(- 39, 0), (- 85 / 2, 0), (- 46, 0)] (initialWorms ! 0)) = Num (- 5)
   \<and> isDead (explodeAll [(- 39, 0), (- 85 / 2, 0), (- 46, 0)] (initialWorms ! 0))"
  by (simp add: explodeAll_def explodeWorm_def initialWorms_def Let_def explosionRadius_def
        maxDamage_def)




text \<open>
  Claim C2 at a worm standing exactly on the impact point: the damage is \<open>maxDamage\<close>
  (health 100 becomes 60), but the knockback computes \<open>0 / 0\<close> and the stored x-position
  becomes \<open>NaN\<close> instead of staying \<open>-40\<close>.
\<close>

theorem zero_distance_impact:
  "hp (explodeWorm (- 40) 0 (initialWorms ! 0)) = Num 60
   \<and> pos_x (explodeWorm (- 40) 0 (initialWorms ! 0)) = NaN"
  by (simp add: explodeWorm_def initialWorms_def Let_def explosionRadius_def maxDamage_def)

text \<open>
  Claim C10 at a worm standing on the right edge of the map, with an impact one unit
  to its left: the knockback stores x = 103.5, beyond \<open>TERRAIN_WIDTH / 2\<close>, and nothing
  clamps it.
\<close>

theorem knockback_leaves_playable_width:
  "pos_x (explodeWorm 99 0 ((initialWorms ! 1)\<lparr>pos_x := Num 100\<rparr>)) = Num (207 / 2)
   \<and> js_lt (Num (TERRAIN_WIDTH / 2)) (pos_x (explodeWorm 99 0 ((initialWorms ! 1)\<lparr>pos_x := Num 100\<rparr>)))"
  by (simp add: explodeWorm_def initialWorms_def Let_def explosionRadius_def maxDamage_def
        TERRAIN_WIDTH_def)

text \<open>
  The movement keys, by contrast, clamp: a worm inside the playable width stays inside
  it whatever keys are held.
\<close>

lemma moveWorm_in_range:
  assumes "pos_x w = Num a" "- (TERRAIN_WIDTH / 2) \<le> a" "a \<le> TERRAIN_WIDTH / 2"
  shows "\<exists>b. pos_x (moveWorm ks w) = Num b \<and> - (TERRAIN_WIDTH / 2) \<le> b \<and> b \<le> TERRAIN_WIDTH / 2"
  using assms
  by (auto simp: moveWorm_def Let_def moveSpeed_def TERRAIN_WIDTH_def)

end
